theory Spec2Isabelle
  imports Main "HOL-Library.AList"
begin

section \<open>Document trees\<close>

text \<open>
  The source file holds three documents, one after the other and set apart by a
  separator mark: the virtual-drive notebook (JSON), the \<open>PIL.Image\<close> demo notebook
  (JSON) and the workspace descriptor (YAML).
  JSON and YAML share one data model: null, booleans, numbers, strings, sequences and
  mappings with ordered keys. A mapping is an association list, in the order of the file.
\<close>

datatype json =
    JNull
  | JBool bool
  | JNum int
  | JStr string
  | JArr "json list"
  | JObj "(string \<times> json) list"

subsection \<open>The virtual-drive notebook (lines 1 to 192 of the source file)\<close>

definition virtual_drive :: json where
  \<open>virtual_drive =
  JObj [
    (''metadata'', JObj [
      (''language_info'', JObj [
        (''codemirror_mode'', JObj [
          (''name'', JStr ''python''),
          (''version'', JNum 3)]),
        (''file_extension'', JStr ''.py''),
        (''mimetype'', JStr ''text/x-python''),
        (''name'', JStr ''python''),
        (''nbconvert_exporter'', JStr ''python''),
        (''pygments_lexer'', JStr ''ipython3''),
        (''version'', JStr ''3.8'')]),
      (''kernelspec'', JObj [
        (''name'', JStr ''python''),
        (''display_name'', JStr ''Pyolite''),
        (''language'', JStr ''python'')])]),
    (''nbformat_minor'', JNum 4),
    (''nbformat'', JNum 4),
    (''cells'', JArr [
      JObj [
        (''cell_type'', JStr ''markdown''),
        (''source'', JStr ''## Virtual file system support\<newline>\<newline>Pyolite mounts a virtual `/drive` directory which allows access to files that are provided by JupyterLab.\<newline>\<newline>**NOTE:** The virtual file system **does not work when in private mode under Firefox** and you'll get permission errors. It will also fail to work if you **hard refresh** the page.''),
        (''metadata'', JObj [])],
      JObj [
        (''cell_type'', JStr ''code''),
        (''source'', JStr ''import os''),
        (''metadata'', JObj [
          (''trusted'', JBool True)]),
        (''execution_count'', JNull),
        (''outputs'', JArr [])],
      JObj [
        (''cell_type'', JStr ''code''),
        (''source'', JStr ''os.getcwd()''),
        (''metadata'', JObj [
          (''trusted'', JBool True)]),
        (''execution_count'', JNull),
        (''outputs'', JArr [])],
      JObj [
        (''cell_type'', JStr ''markdown''),
        (''source'', JStr ''### Make directory''),
        (''metadata'', JObj [])],
      JObj [
        (''cell_type'', JStr ''code''),
        (''source'', JStr ''os.path.isdir("dir")''),
        (''metadata'', JObj [
          (''trusted'', JBool True)]),
        (''execution_count'', JNull),
        (''outputs'', JArr [])],
      JObj [
        (''cell_type'', JStr ''code''),
        (''source'', JStr ''os.mkdir("dir")''),
        (''metadata'', JObj [
          (''trusted'', JBool True)]),
        (''execution_count'', JNull),
        (''outputs'', JArr [])],
      JObj [
        (''cell_type'', JStr ''markdown''),
        (''source'', JStr ''### List directory content''),
        (''metadata'', JObj [])],
      JObj [
        (''cell_type'', JStr ''code''),
        (''source'', JStr ''os.listdir(os.getcwd())''),
        (''metadata'', JObj [
          (''trusted'', JBool True)]),
        (''execution_count'', JNull),
        (''outputs'', JArr [])],
      JObj [
        (''cell_type'', JStr ''markdown''),
        (''source'', JStr ''### Remove''),
        (''metadata'', JObj [])],
      JObj [
        (''cell_type'', JStr ''code''),
        (''source'', JStr ''os.rmdir('dir')''),
        (''metadata'', JObj [
          (''trusted'', JBool True)]),
        (''execution_count'', JNull),
        (''outputs'', JArr [])],
      JObj [
        (''cell_type'', JStr ''code''),
        (''source'', JStr ''os.listdir(os.getcwd())''),
        (''metadata'', JObj [
          (''trusted'', JBool True)]),
        (''execution_count'', JNull),
        (''outputs'', JArr [])],
      JObj [
        (''cell_type'', JStr ''markdown''),
        (''source'', JStr ''### Reading/writing file''),
        (''metadata'', JObj [
          (''tags'', JArr [])])],
      JObj [
        (''cell_type'', JStr ''code''),
        (''source'', JStr ''with open('test.txt', 'w') as fobj:\<newline>    fobj.write('Hello! I write this from the kernel worker')''),
        (''metadata'', JObj [
          (''trusted'', JBool True)]),
        (''execution_count'', JNull),
        (''outputs'', JArr [])],
      JObj [
        (''cell_type'', JStr ''code''),
        (''source'', JStr ''with open('test.txt', 'r') as fobj:\<newline>    print(fobj.read())''),
        (''metadata'', JObj [
          (''trusted'', JBool True)]),
        (''execution_count'', JNull),
        (''outputs'', JArr [])],
      JObj [
        (''cell_type'', JStr ''code''),
        (''source'', JStr ''from PIL import Image\<newline>\<newline>img = Image.new('RGB', (60, 30), color=(73, 109, 137))\<newline>img.save('pil_color.png')''),
        (''metadata'', JObj [
          (''trusted'', JBool True)]),
        (''execution_count'', JNull),
        (''outputs'', JArr [])],
      JObj [
        (''cell_type'', JStr ''code''),
        (''source'', JStr ''from IPython.display import Image\<newline>\<newline>with open('pil_color.png', 'rb') as fobj:\<newline>    data = fobj.read()\<newline>\<newline>print(data[:20])\<newline>Image(data=data, format='png')''),
        (''metadata'', JObj [
          (''trusted'', JBool True)]),
        (''execution_count'', JNull),
        (''outputs'', JArr [])],
      JObj [
        (''cell_type'', JStr ''markdown''),
        (''source'', JStr ''### Replace''),
        (''metadata'', JObj [])],
      JObj [
        (''cell_type'', JStr ''code''),
        (''source'', JStr ''os.path.exists('test.txt')''),
        (''metadata'', JObj [
          (''trusted'', JBool True)]),
        (''execution_count'', JNull),
        (''outputs'', JArr [])],
      JObj [
        (''cell_type'', JStr ''code''),
        (''source'', JStr ''os.rename("test.txt", "test_rename.txt")''),
        (''metadata'', JObj [
          (''trusted'', JBool True)]),
        (''execution_count'', JNull),
        (''outputs'', JArr [])],
      JObj [
        (''cell_type'', JStr ''code''),
        (''source'', JStr ''os.path.exists('test.txt')''),
        (''metadata'', JObj [
          (''trusted'', JBool True)]),
        (''execution_count'', JNull),
        (''outputs'', JArr [])],
      JObj [
        (''cell_type'', JStr ''code''),
        (''source'', JStr ''os.listdir(os.getcwd())''),
        (''metadata'', JObj [
          (''trusted'', JBool True)]),
        (''execution_count'', JNull),
        (''outputs'', JArr [])]])]\<close>

subsection \<open>The \<open>PIL.Image\<close> demo notebook (lines 192 to 328)\<close>

definition pil_demo :: json where
  \<open>pil_demo =
  JObj [
    (''cells'', JArr [
      JObj [
        (''cell_type'', JStr ''markdown''),
        (''metadata'', JObj []),
        (''source'', JArr [
          JStr ''# `PIL.Image` Demo\<newline>'',
          JStr ''\<newline>'',
          JStr ''PIL is the **Python Image Library**, and has excellent [documentation](https://pillow.readthedocs.io/en/latest/index.html).\<newline>'',
          JStr ''\<newline>'',
          JStr ''This is a simple demonstration of rendering PIL images in a `jupyterlite` notebook. Most of PIL should work as designed.''])],
      JObj [
        (''cell_type'', JStr ''markdown''),
        (''metadata'', JObj []),
        (''source'', JArr [
          JStr ''## Import the Library\<newline>'',
          JStr ''\<newline>'',
          JStr ''`jupyterlite` comes with PIL, so you only need import what you need from it.''])],
      JObj [
        (''cell_type'', JStr ''code''),
        (''execution_count'', JNum 1),
        (''metadata'', JObj []),
        (''outputs'', JArr []),
        (''source'', JArr [
          JStr ''from PIL import Image''])],
      JObj [
        (''cell_type'', JStr ''markdown''),
        (''metadata'', JObj []),
        (''source'', JArr [
          JStr ''## Create a new Image''])],
      JObj [
        (''cell_type'', JStr ''code''),
        (''execution_count'', JNum 2),
        (''metadata'', JObj []),
        (''outputs'', JArr [
          JObj [
            (''data'', JObj [
              (''image/png'', JStr ''iVBORw0KGgoAAAANSUhEUgAAAGQAAABkCAIAAAD/gAIDAAAANElEQVR4nO3BAQ0AAADCoPdPbQ43oAAAAAAAAAAAAAAAAAAAAAAAAAAAAAAAAAAAAAAAfgx1lAABqFDyOQAAAABJRU5ErkJggg==\<newline>''),
              (''text/plain'', JArr [
                JStr ''<PIL.Image.Image image mode=RGB size=100x100 at 0x7F2A940AAD90>''])]),
            (''execution_count'', JNum 2),
            (''metadata'', JObj []),
            (''output_type'', JStr ''execute_result'')]]),
        (''source'', JArr [
          JStr ''image = Image.new("RGB", (100, 100))\<newline>'',
          JStr ''image''])],
      JObj [
        (''cell_type'', JStr ''markdown''),
        (''metadata'', JObj []),
        (''source'', JArr [
          JStr ''## Saving an Image''])],
      JObj [
        (''cell_type'', JStr ''code''),
        (''execution_count'', JNum 3),
        (''metadata'', JObj []),
        (''outputs'', JArr []),
        (''source'', JArr [
          JStr ''image.save("box.png")''])],
      JObj [
        (''cell_type'', JStr ''markdown''),
        (''metadata'', JObj []),
        (''source'', JArr [
          JStr ''## Open an existing Image\<newline>'',
          JStr ''\<newline>'',
          JStr ''Currently only works with images written by `jupyterlite`.''])],
      JObj [
        (''cell_type'', JStr ''code''),
        (''execution_count'', JNum 4),
        (''metadata'', JObj []),
        (''outputs'', JArr [
          JObj [
            (''data'', JObj [
              (''image/png'', JStr ''iVBORw0KGgoAAAANSUhEUgAAAGQAAABkCAIAAAD/gAIDAAAANElEQVR4nO3BAQ0AAADCoPdPbQ43oAAAAAAAAAAAAAAAAAAAAAAAAAAAAAAAAAAAAAAAfgx1lAABqFDyOQAAAABJRU5ErkJggg==\<newline>''),
              (''text/plain'', JArr [
                JStr ''<PIL.PngImagePlugin.PngImageFile image mode=RGB size=100x100 at 0x7F2A943FF610>''])]),
            (''execution_count'', JNum 4),
            (''metadata'', JObj []),
            (''output_type'', JStr ''execute_result'')]]),
        (''source'', JArr [
          JStr ''box_image = Image.open("box.png")\<newline>'',
          JStr ''box_image''])]]),
    (''metadata'', JObj [
      (''kernelspec'', JObj [
        (''display_name'', JStr ''Python 3''),
        (''language'', JStr ''python''),
        (''name'', JStr ''python3'')]),
      (''language_info'', JObj [
        (''codemirror_mode'', JObj [
          (''name'', JStr ''ipython''),
          (''version'', JNum 3)]),
        (''file_extension'', JStr ''.py''),
        (''mimetype'', JStr ''text/x-python''),
        (''name'', JStr ''python''),
        (''nbconvert_exporter'', JStr ''python''),
        (''pygments_lexer'', JStr ''ipython3''),
        (''version'', JStr ''3.8.5'')]),
      (''widgets'', JObj [
        (''application/vnd.jupyter.widget-state+json'', JObj [
          (''state'', JObj []),
          (''version_major'', JNum 2),
          (''version_minor'', JNum 0)])])]),
    (''nbformat'', JNum 4),
    (''nbformat_minor'', JNum 4)]\<close>

subsection \<open>The workspace descriptor (lines 329 to 371)\<close>

text \<open>
  A literal block scalar (\<open>|\<close>) is the text of its lines without their indentation, each
  line ended by a newline.
\<close>

definition workspace_descriptor :: json where
  \<open>workspace_descriptor =
  JObj [
    (''github'', JObj [
      (''prebuilds'', JObj [
        (''master'', JBool True),
        (''pullRequests'', JBool True),
        (''pullRequestsFromForks'', JBool True),
        (''addCheck'', JBool False),
        (''addComment'', JBool False),
        (''addBadge'', JBool False),
        (''addLabel'', JBool False)])]),
    (''tasks'', JArr [
      JObj [
        (''name'', JStr ''setup''),
        (''init'', JStr ''pushd /workspace\<newline>wget -qO- https://micro.mamba.pm/api/micromamba/linux-64/latest | tar -xvj bin/micromamba\<newline>popd\<newline># bootstrap activation commands for other tasks to reuse\<newline>cat <<EOT > /workspace/bin/activate-env.sh\<newline>export MAMBA_ROOT_PREFIX=/workspace/.micromamba\<newline>export MAMBA_EXE=/workspace/bin/micromamba\<newline>$(/workspace/bin/micromamba shell hook --shell=bash)\<newline>micromamba activate\<newline>EOT\<newline>source /workspace/bin/activate-env.sh\<newline>micromamba install -n base -y -f .binder/environment.yml\<newline>doit build\<newline>''),
        (''command'', JStr ''gp sync-done setup\<newline>source /workspace/bin/activate-env.sh\<newline>doit watch\<newline>'')],
      JObj [
        (''name'', JStr ''watch''),
        (''command'', JStr ''gp sync-await setup\<newline>source /workspace/bin/activate-env.sh\<newline>doit serve\<newline>'')],
      JObj [
        (''name'', JStr ''docs''),
        (''command'', JStr ''gp sync-await setup\<newline>source /workspace/bin/activate-env.sh\<newline>doit watch:docs\<newline>'')]]),
    (''ports'', JArr [
      JObj [
        (''port'', JNum 5000)],
      JObj [
        (''port'', JNum 8000)],
      JObj [
        (''port'', JNum 8888)]])]\<close>

definition sources :: "json list" where
  "sources = [virtual_drive, pil_demo, workspace_descriptor]"

section \<open>Reading the documents\<close>

fun field :: "string \<Rightarrow> json \<Rightarrow> json option" where
  "field k (JObj kvs) = map_of kvs k"
| "field k _ = None"

fun items :: "json \<Rightarrow> json list" where
  "items (JArr xs) = xs"
| "items _ = []"

text \<open>
  A multi-line string of a notebook is either one string or a list of strings to be
  joined (the first notebook uses the former, the second the latter).
\<close>

fun text_of :: "json \<Rightarrow> string" where
  "text_of (JStr s) = s"
| "text_of (JArr xs) = concat (map text_of xs)"
| "text_of _ = []"

definition is_notebook :: "json \<Rightarrow> bool" where
  "is_notebook d = (field ''nbformat'' d = Some (JNum 4) \<and> field ''cells'' d \<noteq> None)"


definition notebooks :: "json list" where
  "notebooks = filter is_notebook sources"

definition cells :: "json \<Rightarrow> json list" where
  "cells nb = (case field ''cells'' nb of Some v \<Rightarrow> items v | None \<Rightarrow> [])"

definition is_code :: "json \<Rightarrow> bool" where
  "is_code c = (field ''cell_type'' c = Some (JStr ''code''))"

definition code_cells :: "json \<Rightarrow> json list" where
  "code_cells nb = filter is_code (cells nb)"

definition cell_source :: "json \<Rightarrow> string" where
  "cell_source c = (case field ''source'' c of Some v \<Rightarrow> text_of v | None \<Rightarrow> [])"

definition outputs :: "json \<Rightarrow> json list" where
  "outputs c = (case field ''outputs'' c of Some v \<Rightarrow> items v | None \<Rightarrow> [])"

definition execution_count :: "json \<Rightarrow> json option" where
  "execution_count c = field ''execution_count'' c"

definition metadata :: "json \<Rightarrow> string \<Rightarrow> json option" where
  "metadata c k = (case field ''metadata'' c of Some m \<Rightarrow> field k m | None \<Rightarrow> None)"

text \<open>A code cell that was never run: no stored output, and a null execution count.\<close>

definition pre_execution :: "json \<Rightarrow> bool" where
  "pre_execution c = (field ''outputs'' c = Some (JArr []) \<and> execution_count c = Some JNull)"

definition tasks :: "json \<Rightarrow> json list" where
  "tasks d = (case field ''tasks'' d of Some v \<Rightarrow> items v | None \<Rightarrow> [])"

definition task_name :: "json \<Rightarrow> string" where
  "task_name t = (case field ''name'' t of Some v \<Rightarrow> text_of v | None \<Rightarrow> [])"

definition has_init :: "json \<Rightarrow> bool" where
  "has_init t = (field ''init'' t \<noteq> None)"

definition has_command :: "json \<Rightarrow> bool" where
  "has_command t = (field ''command'' t \<noteq> None)"

text \<open>The shell scripts of a task: its \<open>init\<close> and \<open>command\<close> fields, where present.\<close>

definition task_scripts :: "json \<Rightarrow> string list" where
  "task_scripts t = map text_of (List.map_filter (\<lambda>k. field k t) [''init'', ''command''])"

definition prebuilds :: "json \<Rightarrow> string \<Rightarrow> json option" where
  "prebuilds d k = (case field ''github'' d of
       Some g \<Rightarrow> (case field ''prebuilds'' g of Some p \<Rightarrow> field k p | None \<Rightarrow> None)
     | None \<Rightarrow> None)"

definition ports :: "json \<Rightarrow> json option list" where
  "ports d = (case field ''ports'' d of Some v \<Rightarrow> map (field ''port'') (items v) | None \<Rightarrow> [])"

definition is_trusted :: "json \<Rightarrow> bool" where
  "is_trusted c = (metadata c ''trusted'' = Some (JBool True))"

definition has_trusted_flag :: "json \<Rightarrow> bool" where
  "has_trusted_flag c = (metadata c ''trusted'' \<noteq> None)"

section \<open>The calls made by the code cells\<close>

text \<open>
  The code cells hold straight-line Python: imports, assignments, \<open>with ... as\<close> headers
  and call expressions. A cell's text is cut into lines and each line into tokens: names
  (dotted names and numbers), string literals (either quote) and punctuation; blanks
  separate tokens and are dropped.
\<close>

definition is_name_char :: "char \<Rightarrow> bool" where
  "is_name_char c =
     (c \<in> set ''abcdefghijklmnopqrstuvwxyzABCDEFGHIJKLMNOPQRSTUVWXYZ0123456789_.'')"

definition is_quote :: "char \<Rightarrow> bool" where
  "is_quote c = (c = CHR 0x27 \<or> c = CHR 0x22)"

datatype token = Name string | Str string | Sym char

fun flush :: "string \<Rightarrow> token list" where
  "flush [] = []"
| "flush acc = [Name acc]"

text \<open>\<open>lex q acc s\<close>: \<open>q\<close> is the quote of the string literal being read, if any.\<close>

fun lex :: "char option \<Rightarrow> string \<Rightarrow> string \<Rightarrow> token list" where
  "lex None acc [] = flush acc"
| "lex (Some q) acc [] = [Str acc]"
| "lex (Some q) acc (c # cs) =
     (if c = q then Str acc # lex None [] cs else lex (Some q) (acc @ [c]) cs)"
| "lex None acc (c # cs) =
     (if is_name_char c then lex None (acc @ [c]) cs
      else flush acc @
        (if is_quote c then lex (Some c) [] cs
         else if c = CHR '' '' then lex None [] cs
         else Sym c # lex None [] cs))"

fun split_lines :: "string \<Rightarrow> string \<Rightarrow> string list" where
  "split_lines acc [] = [acc]"
| "split_lines acc (c # cs) =
     (if c = CHR ''\<newline>'' then acc # split_lines [] cs else split_lines (acc @ [c]) cs)"

text \<open>
  The code cells of a notebook run in one kernel, in the order of the file: the program
  of a notebook is the lines of all its code cells.
\<close>

definition program :: "json \<Rightarrow> token list list" where
  "program nb =
     map (lex None []) (concat (map (split_lines [] \<circ> cell_source) (code_cells nb)))"

definition is_keyword :: "string \<Rightarrow> bool" where
  "is_keyword n =
     (n \<in> set [''if'', ''elif'', ''else'', ''while'', ''for'', ''in'', ''not'', ''and'',
        ''or'', ''is'', ''return'', ''yield'', ''assert'', ''del'', ''lambda'', ''with'', ''as'',
        ''import'', ''from'', ''raise'', ''except'', ''await''])"

definition is_open :: "char \<Rightarrow> bool" where
  "is_open c = (c = CHR ''('' \<or> c = CHR ''['' \<or> c = CHR ''{'')"

definition is_close :: "char \<Rightarrow> bool" where
  "is_close c = (c = CHR '')'' \<or> c = CHR '']'' \<or> c = CHR ''}'')"

text \<open>The tokens up to the bracket that closes the argument list (\<open>d\<close> brackets are open).\<close>

fun args_of :: "nat \<Rightarrow> token list \<Rightarrow> token list" where
  "args_of d [] = []"
| "args_of d (Sym c # ts) =
     (if is_open c then Sym c # args_of (Suc d) ts
      else if is_close c then (case d of 0 \<Rightarrow> [] | Suc d' \<Rightarrow> Sym c # args_of d' ts)
      else Sym c # args_of d ts)"
| "args_of d (t # ts) = t # args_of d ts"

text \<open>The arguments: the argument list cut at its commas outside brackets.\<close>

fun split_args :: "nat \<Rightarrow> token list \<Rightarrow> token list \<Rightarrow> token list list" where
  "split_args d acc [] = (if acc = [] then [] else [acc])"
| "split_args d acc (Sym c # ts) =
     (if is_open c then split_args (Suc d) (acc @ [Sym c]) ts
      else if is_close c then split_args (d - 1) (acc @ [Sym c]) ts
      else if c = CHR '','' \<and> d = 0 then acc # split_args 0 [] ts
      else split_args d (acc @ [Sym c]) ts)"
| "split_args d acc (t # ts) = split_args d (acc @ [t]) ts"

text \<open>
  An argument is kept when it is a string literal (\<open>Lit\<close>) or a call without arguments
  (\<open>Nullary\<close>, as in \<open>os.listdir(os.getcwd())\<close>); any other expression is \<open>Other\<close>.
\<close>

datatype arg = Lit string | Nullary string | Other

fun arg_of :: "token list \<Rightarrow> arg" where
  "arg_of [Str s] = Lit s"
| "arg_of [Name n, Sym a, Sym b] = (if a = CHR ''('' \<and> b = CHR '')'' then Nullary n else Other)"
| "arg_of _ = Other"

type_synonym call = "string \<times> arg list"

text \<open>The calls of a line, in the order they are written: a name followed by \<open>(\<close>.\<close>

fun calls_in :: "token list \<Rightarrow> call list" where
  "calls_in (Name n # Sym c # ts) =
     (if c = CHR ''('' \<and> \<not> is_keyword n
      then (n, map arg_of (split_args 0 [] (args_of 0 ts))) # calls_in ts
      else calls_in ts)"
| "calls_in (t # ts) = calls_in ts"
| "calls_in [] = []"

text \<open>
  Names are resolved against the bindings made so far. \<open>import m\<close> binds \<open>m\<close> to the
  module \<open>m\<close>; \<open>from m import n\<close> binds \<open>n\<close> to \<open>m.n\<close>; \<open>v = f(...)\<close> and
  \<open>with f(...) as v:\<close> bind \<open>v\<close> to \<open>F()\<close>, a result of the call, where \<open>F\<close> is \<open>f\<close>
  resolved; \<open>v = w\<close> makes \<open>v\<close> an alias of \<open>w\<close>. An assignment of anything else unbinds
  the name. A name that is not bound is a builtin, and stands for itself. So
  \<open>img.save\<close>, after \<open>from PIL import Image\<close> and \<open>img = Image.new(...)\<close>, resolves to
  \<open>PIL.Image.new().save\<close>: the method \<open>save\<close> of an image made by \<open>PIL.Image.new\<close>.
\<close>

type_synonym env = "(string \<times> string) list"

definition resolve :: "env \<Rightarrow> string \<Rightarrow> string" where
  "resolve env n =
     (case map_of env (takeWhile (\<lambda>c. c \<noteq> CHR ''.'') n) of
        Some q \<Rightarrow> q @ dropWhile (\<lambda>c. c \<noteq> CHR ''.'') n
      | None \<Rightarrow> n)"

fun resolve_arg :: "env \<Rightarrow> arg \<Rightarrow> arg" where
  "resolve_arg env (Nullary n) = Nullary (resolve env n)"
| "resolve_arg env a = a"

definition resolve_call :: "env \<Rightarrow> call \<Rightarrow> call" where
  "resolve_call env c = (resolve env (fst c), map (resolve_arg env) (snd c))"

fun value_of :: "env \<Rightarrow> token list \<Rightarrow> string option" where
  "value_of env [Name n] = map_of env n"
| "value_of env (Name n # Sym c # ts) =
     (if c = CHR ''('' \<and> \<not> is_keyword n \<and> Suc (length (args_of 0 ts)) = length ts
      then Some (resolve env n @ ''()'') else None)"
| "value_of env _ = None"

definition assign :: "env \<Rightarrow> string \<Rightarrow> token list \<Rightarrow> env" where
  "assign env v e =
     (case value_of env e of
        Some q \<Rightarrow> (v, q) # env
      | None \<Rightarrow> filter (\<lambda>b. fst b \<noteq> v) env)"

fun bind_as :: "env \<Rightarrow> token list \<Rightarrow> token list \<Rightarrow> env" where
  "bind_as env e (Name a # Name v # ts) = (if a = ''as'' then assign env v e else env)"
| "bind_as env e _ = env"

fun bind :: "env \<Rightarrow> token list \<Rightarrow> env" where
  "bind env (Name k # Name m # ts) =
     (if k = ''import'' \<and> ts = [] then (m, m) # env
      else if k = ''from'' then
        (case ts of
           [Name i, Name n] \<Rightarrow> if i = ''import'' then (n, m @ ''.'' @ n) # env else env
         | _ \<Rightarrow> env)
      else if k = ''with'' then
        bind_as env (takeWhile (\<lambda>t. t \<noteq> Name ''as'') (Name m # ts))
                    (dropWhile (\<lambda>t. t \<noteq> Name ''as'') (Name m # ts))
      else env)"
| "bind env (Name v # Sym c # ts) = (if c = CHR ''='' then assign env v ts else env)"
| "bind env _ = env"

fun run_lines :: "env \<Rightarrow> token list list \<Rightarrow> call list" where
  "run_lines env [] = []"
| "run_lines env (l # ls) = map (resolve_call env) (calls_in l) @ run_lines (bind env l) ls"

definition resolved_calls :: "json \<Rightarrow> call list" where
  "resolved_calls nb = run_lines [] (program nb)"

subsection \<open>Kinds of calls\<close>

fun starts_with :: "string \<Rightarrow> string \<Rightarrow> bool" where
  "starts_with [] s = True"
| "starts_with (p # ps) [] = False"
| "starts_with (p # ps) (c # cs) = (p = c \<and> starts_with ps cs)"

text \<open>
  A file operation is a call into the module \<open>os\<close>, a call of the builtin \<open>open\<close>, or a
  method call on a file object that \<open>open\<close> returned.
\<close>

definition is_file_call :: "string \<Rightarrow> bool" where
  "is_file_call n = (starts_with ''os.'' n \<or> n = ''open'' \<or> starts_with ''open().'' n)"

definition is_image_call :: "string \<Rightarrow> bool" where
  "is_image_call n = starts_with ''PIL.'' n"

definition file_calls :: "json \<Rightarrow> call list" where
  "file_calls nb = filter (is_file_call \<circ> fst) (resolved_calls nb)"

definition image_calls :: "json \<Rightarrow> call list" where
  "image_calls nb = filter (is_image_call \<circ> fst) (resolved_calls nb)"

definition is_other_call :: "string \<Rightarrow> bool" where
  "is_other_call n = (\<not> is_file_call n \<and> \<not> is_image_call n)"

definition other_calls :: "json \<Rightarrow> call list" where
  "other_calls nb = filter (is_other_call \<circ> fst) (resolved_calls nb)"

text \<open>The mode of a call of \<open>open\<close>: its second argument, \<open>r\<close> when there is none.\<close>

fun open_mode :: "arg list \<Rightarrow> string option" where
  "open_mode [p] = Some ''r''"
| "open_mode (p # Lit m # as) = Some m"
| "open_mode _ = None"

definition open_modes :: "json \<Rightarrow> string option list" where
  "open_modes nb = map (open_mode \<circ> snd) (filter (\<lambda>c. fst c = ''open'') (resolved_calls nb))"

text \<open>
  The operation kinds that section 6 of the specification lists for the file API:
  directory creation, listing and removal, read and write, existence check, rename.
\<close>

definition listed_file_operations :: "string list" where
  "listed_file_operations =
     [''os.mkdir'', ''os.listdir'', ''os.rmdir'', ''open'', ''open().read'', ''open().write'',
      ''os.path.exists'', ''os.path.isdir'', ''os.rename'']"

section \<open>Texts: cell sources and task scripts\<close>

definition cell_sources :: "string list" where
  "cell_sources = map cell_source (concat (map cells notebooks))"

definition scripts :: "json \<Rightarrow> string list" where
  "scripts d = concat (map task_scripts (tasks d))"

fun contains :: "string \<Rightarrow> string \<Rightarrow> bool" where
  "contains p [] = (p = [])"
| "contains p (c # cs) = (starts_with p (c # cs) \<or> contains p cs)"

text \<open>The words of a text: its longest runs of letters, digits and underscores.\<close>

definition is_word_char :: "char \<Rightarrow> bool" where
  "is_word_char c = (is_name_char c \<and> c \<noteq> CHR ''.'')"

fun words_of :: "string \<Rightarrow> string \<Rightarrow> string list" where
  "words_of acc [] = (if acc = [] then [] else [acc])"
| "words_of acc (c # cs) =
     (if is_word_char c then words_of (acc @ [c]) cs
      else (if acc = [] then [] else [acc]) @ words_of [] cs)"

definition mentions :: "string list \<Rightarrow> string \<Rightarrow> bool" where
  "mentions ws s = list_ex (\<lambda>w. w \<in> set ws) (words_of [] s)"

text \<open>The modules and names that the code cells import, in the order of the file.\<close>

fun import_of :: "token list \<Rightarrow> string option" where
  "import_of [Name k, Name m] = (if k = ''import'' then Some m else None)"
| "import_of [Name k, Name m, Name i, Name n] =
     (if k = ''from'' \<and> i = ''import'' then Some (m @ ''.'' @ n) else None)"
| "import_of _ = None"

definition imported_names :: "json \<Rightarrow> string list" where
  "imported_names nb = List.map_filter import_of (program nb)"

text \<open>
  Coordination between tasks: the task scripts use the workspace platform's command
  \<open>gp\<close>, whose \<open>sync-done\<close> signals a named event and whose \<open>sync-await\<close> blocks until
  that event was signalled by another task. A text has it when \<open>gp sync\<close> occurs anywhere
  in it.
\<close>

definition has_gp_sync :: "string \<Rightarrow> bool" where
  "has_gp_sync s = contains ''gp sync'' s"

text \<open>
  A cell refers to the workspace descriptor when it names one of its tasks, the platform
  command \<open>gp\<close> or a YAML file; a task script refers to a notebook when it names a
  notebook file (\<open>.ipynb\<close>) or the notebook \<open>examples/pyolite/virtual_drive\<close>.
\<close>

definition descriptor_names :: "json \<Rightarrow> string list" where
  "descriptor_names d = map task_name (tasks d) @ [''gp'', ''yml'', ''yaml'']"

definition references_descriptor :: "json \<Rightarrow> string \<Rightarrow> bool" where
  "references_descriptor d s = mentions (descriptor_names d) s"

definition references_notebook :: "string \<Rightarrow> bool" where
  "references_notebook s =
     (contains ''.ipynb'' s \<or> contains ''virtual_drive'' s \<or> contains ''examples/'' s)"

subsection \<open>The commands of a task script\<close>

text \<open>
  The task scripts are straight-line shell text. A line is cut into words at blanks. A
  blank line or a line whose first word starts with \<open>#\<close> is no command. A command with a
  word \<open><<TAG\<close> takes the lines that follow, up to the line \<open>TAG\<close>, as its here-document:
  they are its input, not commands. A command is kept as its words and the lines of its
  here-document (none for most).
\<close>

fun split_on :: "char \<Rightarrow> string \<Rightarrow> string \<Rightarrow> string list" where
  "split_on d acc [] = [acc]"
| "split_on d acc (c # cs) =
     (if c = d then acc # split_on d [] cs else split_on d (acc @ [c]) cs)"

definition shell_words :: "string \<Rightarrow> string list" where
  "shell_words l = filter (\<lambda>w. w \<noteq> []) (split_on (CHR '' '') [] l)"

fun heredoc_tag :: "string list \<Rightarrow> string option" where
  "heredoc_tag [] = None"
| "heredoc_tag (w # ws) = (if starts_with ''<<'' w then Some (drop 2 w) else heredoc_tag ws)"

type_synonym command = "string list \<times> string list"

text \<open>
  \<open>read_commands h ls\<close>: \<open>h\<close> is the command whose here-document is being read, with
  the closing tag and the lines read so far.
\<close>

fun read_commands ::
  "(string list \<times> string \<times> string list) option \<Rightarrow> string list \<Rightarrow> command list" where
  "read_commands None [] = []"
| "read_commands (Some h) [] = [(fst h, snd (snd h))]"
| "read_commands (Some h) (l # ls) =
     (if l = fst (snd h) then (fst h, snd (snd h)) # read_commands None ls
      else read_commands (Some (fst h, fst (snd h), snd (snd h) @ [l])) ls)"
| "read_commands None (l # ls) =
     (case shell_words l of
        [] \<Rightarrow> read_commands None ls
      | w # ws \<Rightarrow>
          if starts_with ''#'' w then read_commands None ls
          else (case heredoc_tag (w # ws) of
                  None \<Rightarrow> (w # ws, []) # read_commands None ls
                | Some tag \<Rightarrow> read_commands (Some (w # ws, tag, [])) ls))"

definition commands :: "string \<Rightarrow> command list" where
  "commands s = read_commands None (split_lines [] s)"








text \<open>The commands of a script that call the platform command \<open>gp\<close>.\<close>

definition gp_commands :: "string \<Rightarrow> string list list" where
  "gp_commands s = filter (\<lambda>ws. take 1 ws = [''gp'']) (map fst (commands s))"

text \<open>The two kinds of document of section 1 of the specification.\<close>

definition only_files_and_images :: "json \<Rightarrow> bool" where
  "only_files_and_images nb =
     list_all (\<lambda>c. is_file_call (fst c) \<or> is_image_call (fst c)) (resolved_calls nb)"




section \<open>A model of the mounted drive\<close>

text \<open>
  Modelled from the spec: the POSIX-like file API of section 6 (directory creation,
  listing and removal, read and write, existence check, rename), which the external
  Python runtime provides on its mounted drive and which is no code of this repository.
  The drive is one directory (the working directory, where all the relative names of
  the notebook live): an association list from names to kinds of entry, in the order of
  creation. What a file holds and what a subdirectory contains is not modelled; the
  notebook never looks inside a directory, and reads back only what it wrote. The
  operations follow Python's \<open>os\<close> module on a POSIX file system, with its exceptions as
  error values.
\<close>

datatype node = File | Dir

type_synonym drive = "(string \<times> node) list"

datatype os_error =
  FileExistsError | FileNotFoundError | NotADirectoryError | IsADirectoryError

datatype fs_op =
    IsDir string
  | Exists string
  | Mkdir string
  | Rmdir string
  | Listdir
  | OpenWrite string
  | OpenRead string
  | Rename string string

datatype obs = Unit | Bool bool | Names "string list"

fun exec :: "fs_op \<Rightarrow> drive \<Rightarrow> os_error + (obs \<times> drive)" where
  "exec (IsDir p) fs = Inr (Bool (map_of fs p = Some Dir), fs)"
| "exec (Exists p) fs = Inr (Bool (map_of fs p \<noteq> None), fs)"
| "exec (Mkdir p) fs =
     (case map_of fs p of
        None \<Rightarrow> Inr (Unit, AList.update p Dir fs)
      | Some k \<Rightarrow> Inl FileExistsError)"
| "exec (Rmdir p) fs =
     (case map_of fs p of
        None \<Rightarrow> Inl FileNotFoundError
      | Some File \<Rightarrow> Inl NotADirectoryError
      | Some Dir \<Rightarrow> Inr (Unit, AList.delete p fs))"
| "exec Listdir fs = Inr (Names (map fst fs), fs)"
| "exec (OpenWrite p) fs =
     (case map_of fs p of
        Some Dir \<Rightarrow> Inl IsADirectoryError
      | _ \<Rightarrow> Inr (Unit, AList.update p File fs))"
| "exec (OpenRead p) fs =
     (case map_of fs p of
        None \<Rightarrow> Inl FileNotFoundError
      | Some Dir \<Rightarrow> Inl IsADirectoryError
      | Some File \<Rightarrow> Inr (Unit, fs))"
| "exec (Rename a b) fs =
     (case map_of fs a of
        None \<Rightarrow> Inl FileNotFoundError
      | Some File \<Rightarrow>
          (if map_of fs b = Some Dir then Inl IsADirectoryError
           else Inr (Unit, AList.update b File (AList.delete a fs)))
      | Some Dir \<Rightarrow>
          (if map_of fs b = Some File then Inl NotADirectoryError
           else Inr (Unit, AList.update b Dir (AList.delete a fs))))"

fun run :: "fs_op list \<Rightarrow> drive \<Rightarrow> os_error + (obs list \<times> drive)" where
  "run [] fs = Inr ([], fs)"
| "run (f # fs_ops) fs =
     (case exec f fs of
        Inl e \<Rightarrow> Inl e
      | Inr r \<Rightarrow>
          (case run fs_ops (snd r) of
             Inl e \<Rightarrow> Inl e
           | Inr rs \<Rightarrow> Inr (fst r # fst rs, snd rs)))"

text \<open>
  The operation on the drive that a resolved call stands for; \<open>None\<close> for a call that
  leaves the directory alone and observes nothing of it (\<open>os.getcwd\<close>, \<open>print\<close>, reading
  and writing through an open file object, making an image in memory). Saving an image
  writes the file it names. \<open>os.listdir\<close> is given \<open>os.getcwd()\<close>, the directory modelled.
\<close>

fun fs_op_of :: "call \<Rightarrow> fs_op option" where
  "fs_op_of (n, [Lit p]) =
     (if n = ''os.path.isdir'' then Some (IsDir p)
      else if n = ''os.path.exists'' then Some (Exists p)
      else if n = ''os.mkdir'' then Some (Mkdir p)
      else if n = ''os.rmdir'' then Some (Rmdir p)
      else if n = ''PIL.Image.new().save'' then Some (OpenWrite p)
      else if n = ''open'' then Some (OpenRead p)
      else None)"
| "fs_op_of (n, [Nullary g]) =
     (if n = ''os.listdir'' \<and> g = ''os.getcwd'' then Some Listdir else None)"
| "fs_op_of (n, [Lit p, Lit q]) =
     (if n = ''os.rename'' then Some (Rename p q)
      else if n = ''open'' then
        (if q = ''w'' \<or> q = ''wb'' then Some (OpenWrite p)
         else if q = ''r'' \<or> q = ''rb'' then Some (OpenRead p)
         else None)
      else None)"
| "fs_op_of _ = None"

definition fs_ops :: "json \<Rightarrow> fs_op list" where
  "fs_ops nb = List.map_filter fs_op_of (resolved_calls nb)"

section \<open>Stored state of the notebook cells\<close>

lemmas read_defs =
  cells_def is_code_def code_cells_def outputs_def
  execution_count_def metadata_def pre_execution_def tasks_def task_name_def
  has_init_def has_command_def prebuilds_def ports_def is_trusted_def has_trusted_flag_def

lemma notebooks_eq: "notebooks = [virtual_drive, pil_demo]"
  by (simp add: notebooks_def sources_def is_notebook_def
      virtual_drive_def pil_demo_def workspace_descriptor_def)

text \<open>
  C1, as stated, fails: the second notebook of the sources is stored after a run. Its
  second code cell (\<open>image = Image.new(...)\<close>) has execution count 2 and one stored
  \<open>execute_result\<close> output.
\<close>

theorem C1_stored_output_counterexample:
  "pil_demo \<in> set notebooks
   \<and> code_cells pil_demo ! 1 \<in> set (code_cells pil_demo)
   \<and> execution_count (code_cells pil_demo ! 1) = Some (JNum 2)
   \<and> length (outputs (code_cells pil_demo ! 1)) = 1
   \<and> \<not> pre_execution (code_cells pil_demo ! 1)"
  by (simp add: notebooks_eq) (simp add: read_defs pil_demo_def)

text \<open>
  C1 (amended): every code cell of the virtual-drive notebook has an empty outputs list
  and a null execution count. The four code cells of the \<open>PIL.Image\<close> demo notebook are
  stored after execution: their execution counts are 1 to 4, and the second and the
  fourth hold one stored output each, of type \<open>execute_result\<close>; the first and the third
  hold none.
\<close>

theorem C1_virtual_drive_pre_execution:
  "list_all pre_execution (code_cells virtual_drive)
   \<and> length (code_cells virtual_drive) = 15
   \<and> map execution_count (code_cells pil_demo)
       = [Some (JNum 1), Some (JNum 2), Some (JNum 3), Some (JNum 4)]
   \<and> map (length \<circ> outputs) (code_cells pil_demo) = [0, 1, 0, 1]
   \<and> map (map (field ''output_type'') \<circ> outputs) (code_cells pil_demo)
       = [[], [Some (JStr ''execute_result'')], [], [Some (JStr ''execute_result'')]]"
  by (simp add: read_defs virtual_drive_def pil_demo_def)

text \<open>
  C10: every code cell of the virtual-drive notebook carries the metadata entry
  \<open>"trusted": true\<close>, and no code cell of the \<open>PIL.Image\<close> demo notebook carries a
  \<open>trusted\<close> entry at all (both notebooks do have code cells).
\<close>

theorem C10_trusted_flags:
  "list_all is_trusted (code_cells virtual_drive)
   \<and> \<not> list_ex has_trusted_flag (code_cells pil_demo)
   \<and> code_cells virtual_drive \<noteq> [] \<and> code_cells pil_demo \<noteq> []"
  by (simp add: read_defs virtual_drive_def pil_demo_def)

section \<open>The workspace descriptor\<close>

text \<open>
  C2, as stated, fails: the task named \<open>watch\<close> has a \<open>command\<close> field and no \<open>init\<close>
  field.
\<close>

theorem C2_watch_without_init_counterexample:
  "tasks workspace_descriptor ! 1 \<in> set (tasks workspace_descriptor)
   \<and> task_name (tasks workspace_descriptor ! 1) = ''watch''
   \<and> \<not> (has_init (tasks workspace_descriptor ! 1)
          \<and> has_command (tasks workspace_descriptor ! 1))"
  by (simp add: read_defs workspace_descriptor_def)

text \<open>
  C2 (amended): the descriptor names three tasks, \<open>setup\<close>, \<open>watch\<close> and \<open>docs\<close>; every
  one of them has a \<open>command\<close> field, and \<open>setup\<close> is the only one with an \<open>init\<close> field.
\<close>

theorem C2_every_task_has_command:
  "map task_name (tasks workspace_descriptor) = [''setup'', ''watch'', ''docs'']
   \<and> list_all has_command (tasks workspace_descriptor)
   \<and> map task_name (filter has_init (tasks workspace_descriptor)) = [''setup'']"
  by (simp add: read_defs workspace_descriptor_def)

text \<open>
  C6: the descriptor declares prebuild triggers under the keys \<open>master\<close>, \<open>pullRequests\<close>
  and \<open>pullRequestsFromForks\<close> (all three switched on), and a list of network ports
  (5000, 8000 and 8888).
\<close>

theorem C6_prebuilds_and_ports:
  "prebuilds workspace_descriptor ''master'' = Some (JBool True)
   \<and> prebuilds workspace_descriptor ''pullRequests'' = Some (JBool True)
   \<and> prebuilds workspace_descriptor ''pullRequestsFromForks'' = Some (JBool True)
   \<and> ports workspace_descriptor = [Some (JNum 5000), Some (JNum 8000), Some (JNum 8888)]"
  by (simp add: read_defs workspace_descriptor_def)

section \<open>What the code cells call\<close>

lemma resolved_calls_virtual_drive:
  "resolved_calls virtual_drive =
     [(''os.getcwd'', []), (''os.path.isdir'', [Lit ''dir'']),
      (''os.mkdir'', [Lit ''dir'']), (''os.listdir'', [Nullary ''os.getcwd'']),
      (''os.getcwd'', []), (''os.rmdir'', [Lit ''dir'']),
      (''os.listdir'', [Nullary ''os.getcwd'']), (''os.getcwd'', []),
      (''open'', [Lit ''test.txt'', Lit ''w'']),
      (''open().write'', [Lit ''Hello! I write this from the kernel worker'']),
      (''open'', [Lit ''test.txt'', Lit ''r'']),
      (''print'', [Nullary ''open().read'']), (''open().read'', []),
      (''PIL.Image.new'', [Lit ''RGB'', Other, Other]),
      (''PIL.Image.new().save'', [Lit ''pil_color.png'']),
      (''open'', [Lit ''pil_color.png'', Lit ''rb'']), (''open().read'', []),
      (''print'', [Other]), (''IPython.display.Image'', [Other, Other]),
      (''os.path.exists'', [Lit ''test.txt'']),
      (''os.rename'', [Lit ''test.txt'', Lit ''test_rename.txt'']),
      (''os.path.exists'', [Lit ''test.txt'']),
      (''os.listdir'', [Nullary ''os.getcwd'']), (''os.getcwd'', [])]"
  by code_simp

lemma resolved_calls_pil_demo:
  "resolved_calls pil_demo =
     [(''PIL.Image.new'', [Lit ''RGB'', Other]),
      (''PIL.Image.new().save'', [Lit ''box.png'']),
      (''PIL.Image.open'', [Lit ''box.png''])]"
  by code_simp

lemmas kind_defs =
  file_calls_def image_calls_def other_calls_def is_other_call_def is_file_call_def
  is_image_call_def open_modes_def listed_file_operations_def only_files_and_images_def

text \<open>
  C4, as stated, fails in its last part: the virtual-drive notebook also calls
  \<open>os.getcwd\<close> (four times), a call into the file API that is none of the listed kinds.
\<close>

theorem C4_getcwd_counterexample:
  "(''os.getcwd'', []) \<in> set (file_calls virtual_drive)
   \<and> ''os.getcwd'' \<notin> set listed_file_operations"
  by (simp add: resolved_calls_virtual_drive kind_defs)

text \<open>
  C4 (amended): the code cells of the virtual-drive notebook call every listed kind of
  file operation (\<open>os.mkdir\<close>, \<open>os.listdir\<close>, \<open>os.rmdir\<close>, \<open>open\<close> with reading and
  writing through the file object, \<open>os.path.exists\<close>, \<open>os.path.isdir\<close>, \<open>os.rename\<close>),
  and the only file operation they call besides these is \<open>os.getcwd\<close>. The modes
  given to \<open>open\<close> are \<open>w\<close>, \<open>r\<close> and \<open>rb\<close>, in this order.
\<close>

theorem C4_file_operations:
  "set (map fst (file_calls virtual_drive)) = set (''os.getcwd'' # listed_file_operations)
   \<and> open_modes virtual_drive = [Some ''w'', Some ''r'', Some ''rb'']"
  by (simp add: resolved_calls_virtual_drive kind_defs) code_simp

text \<open>
  C5: the calls into the image library are exactly of three kinds: making an image
  (\<open>PIL.Image.new\<close>), opening one (\<open>PIL.Image.open\<close>) and saving one (the method \<open>save\<close>
  of an image that \<open>PIL.Image.new\<close> made; the variable is \<open>img\<close> in the first notebook
  and \<open>image\<close> in the second).
\<close>

theorem C5_image_library_calls:
  "map fst (image_calls virtual_drive) = [''PIL.Image.new'', ''PIL.Image.new().save'']
   \<and> map fst (image_calls pil_demo)
       = [''PIL.Image.new'', ''PIL.Image.new().save'', ''PIL.Image.open'']
   \<and> set (map fst (concat (map image_calls notebooks)))
       = {''PIL.Image.new'', ''PIL.Image.open'', ''PIL.Image.new().save''}"
  by (simp add: notebooks_eq resolved_calls_virtual_drive resolved_calls_pil_demo kind_defs)
     code_simp

section \<open>Coordination and independence\<close>

text \<open>
  C3, as stated, fails on the task scripts: the command of the task \<open>setup\<close> runs
  \<open>gp sync-done setup\<close>, which signals the other tasks that wait for it.
\<close>

theorem C3_gp_sync_counterexample:
  "scripts workspace_descriptor ! 1
     = ''gp sync-done setup\<newline>source /workspace/bin/activate-env.sh\<newline>doit watch\<newline>''
   \<and> has_gp_sync (scripts workspace_descriptor ! 1)
   \<and> gp_commands (scripts workspace_descriptor ! 1) = [[''gp'', ''sync-done'', ''setup'']]"
  by code_simp

text \<open>
  C3 (amended): no cell source of the notebooks (30 cells) contains a \<open>gp sync\<close>
  command, and the code cells use nothing that synchronizes or coordinates: all they
  import is \<open>os\<close>, \<open>PIL.Image\<close> and \<open>IPython.display.Image\<close>, and all they call is the
  file API (\<open>os.getcwd\<close>, \<open>os.path.isdir\<close>, \<open>os.path.exists\<close>, \<open>os.mkdir\<close>,
  \<open>os.listdir\<close>, \<open>os.rmdir\<close>, \<open>os.rename\<close>, \<open>open\<close>, and \<open>read\<close> and \<open>write\<close> on the
  opened file), the image library (\<open>Image.new\<close>, \<open>Image.open\<close>, \<open>save\<close> on an image),
  \<open>print\<close> and \<open>IPython.display.Image\<close>. The task scripts of the workspace descriptor
  do coordinate across tasks: the command of \<open>setup\<close> runs \<open>gp sync-done setup\<close>, and
  the commands of \<open>watch\<close> and \<open>docs\<close> run \<open>gp sync-await setup\<close>; the init script of
  \<open>setup\<close> has no \<open>gp sync\<close> command.
\<close>

theorem C3_coordination_only_in_tasks:
  "\<not> list_ex has_gp_sync cell_sources
   \<and> length cell_sources = 30
   \<and> imported_names virtual_drive = [''os'', ''PIL.Image'', ''IPython.display.Image'']
   \<and> imported_names pil_demo = [''PIL.Image'']
   \<and> set (map fst (resolved_calls virtual_drive))
       = {''os.getcwd'', ''os.path.isdir'', ''os.path.exists'', ''os.mkdir'', ''os.listdir'',
          ''os.rmdir'', ''os.rename'', ''open'', ''open().read'', ''open().write'',
          ''PIL.Image.new'', ''PIL.Image.new().save'', ''print'', ''IPython.display.Image''}
   \<and> set (map fst (resolved_calls pil_demo))
       = {''PIL.Image.new'', ''PIL.Image.new().save'', ''PIL.Image.open''}
   \<and> map has_gp_sync (scripts workspace_descriptor) = [False, True, True, True]
   \<and> map gp_commands (scripts workspace_descriptor)
       = [[], [[''gp'', ''sync-done'', ''setup'']], [[''gp'', ''sync-await'', ''setup'']],
          [[''gp'', ''sync-await'', ''setup'']]]"
  by code_simp

text \<open>
  C7: the notebooks and the workspace descriptor do not refer to each other. No cell
  source (of 30) names a task of the descriptor (\<open>setup\<close>, \<open>watch\<close>, \<open>docs\<close>), its
  platform command or a YAML file, and no task script (of 4) names a notebook file.
\<close>

theorem C7_notebooks_and_descriptor_independent:
  "\<not> list_ex (references_descriptor workspace_descriptor) cell_sources
   \<and> \<not> list_ex references_notebook (scripts workspace_descriptor)
   \<and> length cell_sources = 30
   \<and> length (scripts workspace_descriptor) = 4"
  by code_simp

section \<open>The kinds of document\<close>



section \<open>The virtual-drive notebook on the model drive\<close>

lemma fs_ops_virtual_drive:
  "fs_ops virtual_drive =
     [IsDir ''dir'', Mkdir ''dir'', Listdir, Rmdir ''dir'', Listdir,
      OpenWrite ''test.txt'', OpenRead ''test.txt'',
      OpenWrite ''pil_color.png'', OpenRead ''pil_color.png'',
      Exists ''test.txt'', Rename ''test.txt'' ''test_rename.txt'',
      Exists ''test.txt'', Listdir]"
  by code_simp

lemma keys_update_fresh:
  "map_of fs k = None \<Longrightarrow> map fst (AList.update k v fs) = map fst fs @ [k]"
  by (simp add: update_keys map_of_eq_None_iff)

lemma delete_update_fresh:
  "map_of fs k = None \<Longrightarrow> AList.delete k (AList.update k v fs) = fs"
  by (simp add: delete_update_same map_of_eq_None_iff)

lemma keys_update_set: "set (map fst (AList.update k v fs)) = insert k (set (map fst fs))"
  by (simp add: update_keys) auto

lemma keys_delete_set: "set (map fst (AList.delete k fs)) = set (map fst fs) - {k}"
  by (induction fs) auto

text \<open>
  C9: run the cells of the virtual-drive notebook, in order, on any drive that has no
  entry \<open>dir\<close> and on which \<open>test.txt\<close>, \<open>pil_color.png\<close> and \<open>test_rename.txt\<close> are not
  directories. Then no call raises. \<open>os.mkdir\<close> and \<open>os.rmdir\<close> are given the same
  name, \<open>dir\<close>; the listing between them is the initial listing with \<open>dir\<close> added, and
  the listing after \<open>os.rmdir\<close> is the initial listing again. \<open>os.path.exists('test.txt')\<close>
  is true before \<open>os.rename('test.txt', 'test_rename.txt')\<close> and false after it, and the
  last listing has \<open>test_rename.txt\<close> and not \<open>test.txt\<close>.
\<close>

theorem C9_mkdir_rmdir_and_rename:
  assumes "map_of fs ''dir'' = None"
    and "map_of fs ''test.txt'' \<noteq> Some Dir"
    and "map_of fs ''pil_color.png'' \<noteq> Some Dir"
    and "map_of fs ''test_rename.txt'' \<noteq> Some Dir"
  shows "fs_ops virtual_drive ! 1 = Mkdir ''dir'' \<and> fs_ops virtual_drive ! 3 = Rmdir ''dir''
    \<and> (\<exists>names fs'. run (fs_ops virtual_drive) fs =
          Inr ([Bool False, Unit, Names (map fst fs @ [''dir'']), Unit, Names (map fst fs),
                Unit, Unit, Unit, Unit, Bool True, Unit, Bool False, Names names], fs')
        \<and> ''test_rename.txt'' \<in> set names \<and> ''test.txt'' \<notin> set names)"
proof -
  let ?a = "AList.update ''test.txt'' File fs"
  let ?b = "AList.update ''pil_color.png'' File ?a"
  let ?c = "AList.update ''test_rename.txt'' File (AList.delete ''test.txt'' ?b)"
  have a: "map_of ?a ''test.txt'' = Some File"
    by (simp add: update_conv')
  have b: "map_of ?b ''test.txt'' = Some File" "map_of ?b ''pil_color.png'' = Some File"
    "map_of ?b ''test_rename.txt'' \<noteq> Some Dir"
    using assms(4) by (simp_all add: update_conv')
  have c: "map_of ?c ''test.txt'' = None"
    by (simp add: update_conv' delete_conv')
  have r: "run (fs_ops virtual_drive) fs =
      Inr ([Bool False, Unit, Names (map fst fs @ [''dir'']), Unit, Names (map fst fs),
            Unit, Unit, Unit, Unit, Bool True, Unit, Bool False, Names (map fst ?c)], ?c)"
    using assms a b c
    by (simp add: fs_ops_virtual_drive keys_update_fresh delete_update_fresh update_conv'
        split: option.split node.split)
  have "''test_rename.txt'' \<in> set (map fst ?c)" "''test.txt'' \<notin> set (map fst ?c)"
    unfolding keys_update_set keys_delete_set by simp_all
  with r show ?thesis
    by (simp add: fs_ops_virtual_drive)
qed

text \<open>
  The hypotheses of C9 hold of the empty drive, where the run ends with the two files
  \<open>pil_color.png\<close> and \<open>test_rename.txt\<close>.
\<close>

theorem C9_empty_drive_witness:
  "map_of ([] :: drive) ''dir'' = None
   \<and> map_of ([] :: drive) ''test.txt'' \<noteq> Some Dir
   \<and> map_of ([] :: drive) ''pil_color.png'' \<noteq> Some Dir
   \<and> map_of ([] :: drive) ''test_rename.txt'' \<noteq> Some Dir
   \<and> run (fs_ops virtual_drive) [] =
       Inr ([Bool False, Unit, Names [''dir''], Unit, Names [], Unit, Unit, Unit, Unit,
             Bool True, Unit, Bool False, Names [''pil_color.png'', ''test_rename.txt'']],
            [(''pil_color.png'', File), (''test_rename.txt'', File)])"
  using C9_mkdir_rmdir_and_rename [of "[]"]
  by (simp add: fs_ops_virtual_drive)

end
